theory Spec2Isabelle
  imports Main "HOL-Library.Sublist"
begin

section \<open>Python text\<close>

text \<open>
  A Python \<^verbatim>\<open>str\<close> is a sequence of Unicode code points. A code point is a natural
  number; \<open>py\<close> turns an ASCII literal into such a sequence.
\<close>

type_synonym codepoint = nat
type_synonym pystr = "codepoint list"

definition py :: "string \<Rightarrow> pystr" where
  "py s = map of_char s"

text \<open>
  The classification and case mapping of code points is decided by the Unicode tables
  of the Python runtime. Their ASCII part is written out below; the part beyond ASCII is
  not in the repository and is taken as a parameter of the model. \<^verbatim>\<open>str.lower\<close> and
  \<^verbatim>\<open>str.capitalize\<close> are context sensitive beyond ASCII, so the parameter maps whole
  strings.
\<close>

record unicode_db =
  u_isspace :: "codepoint \<Rightarrow> bool"
  u_isalnum :: "codepoint \<Rightarrow> bool"
  u_lower :: "pystr \<Rightarrow> pystr"
  u_capitalize :: "pystr \<Rightarrow> pystr"

definition is_ascii :: "codepoint \<Rightarrow> bool" where
  "is_ascii c = (c < 128)"

text \<open>Whitespace as \<^verbatim>\<open>str.strip()\<close> and the regex class \<^verbatim>\<open>\s\<close> see it.\<close>

definition is_space :: "unicode_db \<Rightarrow> codepoint \<Rightarrow> bool" where
  "is_space U c =
     (if is_ascii c then (9 \<le> c \<and> c \<le> 13) \<or> (28 \<le> c \<and> c \<le> 32)
      else u_isspace U c)"

text \<open>The regex class \<^verbatim>\<open>\w\<close> under \<^verbatim>\<open>re.UNICODE\<close>: alphanumeric or underscore.\<close>

definition is_word :: "unicode_db \<Rightarrow> codepoint \<Rightarrow> bool" where
  "is_word U c =
     (if is_ascii c
      then (48 \<le> c \<and> c \<le> 57) \<or> (65 \<le> c \<and> c \<le> 90) \<or> (97 \<le> c \<and> c \<le> 122) \<or> c = 95
      else u_isalnum U c)"

definition ascii_lower :: "codepoint \<Rightarrow> codepoint" where
  "ascii_lower c = (if 65 \<le> c \<and> c \<le> 90 then c + 32 else c)"

definition ascii_upper :: "codepoint \<Rightarrow> codepoint" where
  "ascii_upper c = (if 97 \<le> c \<and> c \<le> 122 then c - 32 else c)"

text \<open>\<^verbatim>\<open>s.lower()\<close>\<close>

definition lower :: "unicode_db \<Rightarrow> pystr \<Rightarrow> pystr" where
  "lower U s = (if list_all is_ascii s then map ascii_lower s else u_lower U s)"

text \<open>\<^verbatim>\<open>s.capitalize()\<close>: the first character upper-cased, the rest lower-cased.\<close>

definition capitalize :: "unicode_db \<Rightarrow> pystr \<Rightarrow> pystr" where
  "capitalize U s =
     (if list_all is_ascii s
      then (case s of [] \<Rightarrow> [] | c # cs \<Rightarrow> ascii_upper c # map ascii_lower cs)
      else u_capitalize U s)"

text \<open>\<^verbatim>\<open>s.strip()\<close>: leading and trailing whitespace removed.\<close>

definition strip :: "unicode_db \<Rightarrow> pystr \<Rightarrow> pystr" where
  "strip U s = rev (dropWhile (is_space U) (rev (dropWhile (is_space U) s)))"

text \<open>
  \<^verbatim>\<open>s.split(sep, 1)\<close> for a one-character separator: the text before the first
  separator and the text after it, or the whole text alone when there is no separator.
\<close>

fun split1 :: "codepoint \<Rightarrow> pystr \<Rightarrow> pystr list" where
  "split1 sep [] = [[]]"
| "split1 sep (c # cs) =
     (if c = sep then [[], cs]
      else (let r = split1 sep cs in (c # hd r) # tl r))"

section \<open>Token estimation (the tokenizer module)\<close>

text \<open>
  \<^verbatim>\<open>re.findall(r"\w+|[^\w\s]", text, flags=re.UNICODE)\<close>: the scan goes left to right;
  at a word character the first alternative takes the whole run of word characters, at
  any other character that is not whitespace the second alternative takes that one
  character, and whitespace matches neither alternative and is passed over.
\<close>

function re_findall :: "unicode_db \<Rightarrow> pystr \<Rightarrow> pystr list" where
  "re_findall U [] = []"
| "re_findall U (c # cs) =
     (if is_word U c
      then (c # takeWhile (is_word U) cs) # re_findall U (dropWhile (is_word U) cs)
      else if \<not> is_space U c then [c] # re_findall U cs
      else re_findall U cs)"
  by pat_completeness auto
termination
  by (relation "measure (\<lambda>(U, s). length s)")
     (auto simp: le_imp_less_Suc length_dropWhile_le)

definition heuristic_count :: "unicode_db \<Rightarrow> pystr \<Rightarrow> int" where
  "heuristic_count U text = int (length (re_findall U text))"


text \<open>
  Exceptions are values. Every exception of the model is an instance of Python's
  \<^verbatim>\<open>Exception\<close>, which is what \<^verbatim>\<open>except Exception\<close> catches.
\<close>

datatype py_exception =
    ImportError
  | KeyError
  | ValueError
  | FileNotFoundError pystr
  | OtherException pystr

text \<open>\<^verbatim>\<open>try: body  except Exception: handler\<close>\<close>

definition try_except ::
  "(py_exception + 'a) \<Rightarrow> (py_exception \<Rightarrow> py_exception + 'a) \<Rightarrow> py_exception + 'a" where
  "try_except body handler = (case body of Inl e \<Rightarrow> handler e | Inr v \<Rightarrow> Inr v)"

text \<open>
  The \<^verbatim>\<open>tiktoken\<close> library is not part of the repository and may be absent. It is a
  parameter: an encoding object is its \<^verbatim>\<open>encode\<close> method, and every call into the
  library may raise.
\<close>

type_synonym encoding = "pystr \<Rightarrow> py_exception + nat list"

record tiktoken_lib =
  encoding_for_model :: "pystr \<Rightarrow> py_exception + encoding"
  get_encoding :: "pystr \<Rightarrow> py_exception + encoding"

text \<open>
  The static system-prompt resource \<^verbatim>\<open>system_prompt.md\<close> as the file system has it:
  absent, present but failing to be read, or present with the characters it stores.
\<close>

datatype resource = Missing | Unreadable py_exception | Contents pystr

text \<open>What a run of the program depends on besides its arguments.\<close>

record py_env =
  unicode :: unicode_db
  tiktoken :: "tiktoken_lib option"
  tokenizer_module :: bool
  system_prompt_path :: pystr
  system_prompt_file :: resource

text \<open>\<^verbatim>\<open>import tiktoken\<close>\<close>

definition import_tiktoken :: "py_env \<Rightarrow> py_exception + tiktoken_lib" where
  "import_tiktoken E = (case tiktoken E of None \<Rightarrow> Inl ImportError | Some lib \<Rightarrow> Inr lib)"

text \<open>
  Lines 29 to 34 of \<^verbatim>\<open>count_tokens\<close>: \<^verbatim>\<open>enc\<close> starts as \<^verbatim>\<open>None\<close>; for a truthy model
  name the model's encoding is looked up, and an exception of that lookup is passed over.
\<close>

definition model_encoding :: "tiktoken_lib \<Rightarrow> pystr option \<Rightarrow> py_exception + encoding option" where
  "model_encoding lib model_name =
     (case model_name of
        None \<Rightarrow> Inr None
      | Some m \<Rightarrow>
          if m = [] then Inr None
          else try_except
                 (case encoding_for_model lib m of Inl e \<Rightarrow> Inl e | Inr enc \<Rightarrow> Inr (Some enc))
                 (\<lambda>e. Inr None))"

text \<open>The body of the outer \<^verbatim>\<open>try\<close> of \<^verbatim>\<open>count_tokens\<close>.\<close>

definition count_tokens_try :: "py_env \<Rightarrow> pystr \<Rightarrow> pystr option \<Rightarrow> py_exception + int" where
  "count_tokens_try E text model_name =
     (case import_tiktoken E of
        Inl e \<Rightarrow> Inl e
      | Inr lib \<Rightarrow>
          (case model_encoding lib model_name of
             Inl e \<Rightarrow> Inl e
           | Inr enc0 \<Rightarrow>
               (case (case enc0 of
                        None \<Rightarrow> get_encoding lib (py ''cl100k_base'')
                      | Some enc \<Rightarrow> Inr enc) of
                  Inl e \<Rightarrow> Inl e
                | Inr enc \<Rightarrow>
                    (case enc text of
                       Inl e \<Rightarrow> Inl e
                     | Inr toks \<Rightarrow> Inr (int (length toks))))))"

definition count_tokens :: "py_env \<Rightarrow> pystr \<Rightarrow> pystr option \<Rightarrow> py_exception + int" where
  "count_tokens E text model_name =
     try_except (count_tokens_try E text model_name)
       (\<lambda>e. Inr (heuristic_count (unicode E) text))"

section \<open>Prompt assembly (the runtime builder module)\<close>

record prompt_parts =
  system :: pystr
  user :: pystr

text \<open>
  The steps a call takes, in order: the existence check of the resource, the read of the
  resource, the processing of the user message.
\<close>

datatype step = Check_exists | Read_text | Strip_user_message

text \<open>
  \<^verbatim>\<open>read_text\<close> opens the file in text mode, where every line ending of the file, CR LF
  or a lone CR, arrives as LF.
\<close>

fun universal_newlines :: "pystr \<Rightarrow> pystr" where
  "universal_newlines [] = []"
| "universal_newlines [c] = [if c = 13 then 10 else c]"
| "universal_newlines (c # d # cs) =
     (if c = 13 \<and> d = 10 then 10 # universal_newlines cs
      else if c = 13 then 10 # universal_newlines (d # cs)
      else c # universal_newlines (d # cs))"

definition load_system_prompt :: "py_env \<Rightarrow> step list \<times> (py_exception + pystr)" where
  "load_system_prompt E =
     (case system_prompt_file E of
        Missing \<Rightarrow>
          ([Check_exists],
           Inl (FileNotFoundError (py ''Missing system prompt at '' @ system_prompt_path E)))
      | Unreadable e \<Rightarrow> ([Check_exists, Read_text], Inl e)
      | Contents t \<Rightarrow>
          ([Check_exists, Read_text], Inr (strip (unicode E) (universal_newlines t))))"

definition build_prompt :: "py_env \<Rightarrow> pystr \<Rightarrow> step list \<times> (py_exception + prompt_parts)" where
  "build_prompt E user_message =
     (case load_system_prompt E of
        (steps, Inl e) \<Rightarrow> (steps, Inl e)
      | (steps, Inr sys) \<Rightarrow>
          (steps @ [Strip_user_message],
           Inr \<lparr>system = sys, user = strip (unicode E) user_message\<rparr>))"

section \<open>Conversation memory (the conversation memory demo script)\<close>

record turn =
  role :: pystr
  content :: pystr

definition parse_turn :: "unicode_db \<Rightarrow> pystr \<Rightarrow> py_exception + turn option" where
  "parse_turn U turn_str =
     (if 58 \<notin> set turn_str then Inr None
      else (case split1 58 turn_str of
              [r, c] \<Rightarrow>
                (let role = lower U (strip U r);
                     content = strip U c
                 in if role \<notin> set [py ''user'', py ''assistant''] then Inr None
                    else Inr (Some \<lparr>role = role, content = content\<rparr>))
            | _ \<Rightarrow> Inl ValueError))"

fun normalize_loop :: "unicode_db \<Rightarrow> pystr list \<Rightarrow> turn list \<Rightarrow> py_exception + turn list" where
  "normalize_loop U [] parsed = Inr parsed"
| "normalize_loop U (t # ts) parsed =
     (case parse_turn U t of
        Inl e \<Rightarrow> Inl e
      | Inr None \<Rightarrow> normalize_loop U ts parsed
      | Inr (Some item) \<Rightarrow> normalize_loop U ts (parsed @ [item]))"

definition normalize_history :: "unicode_db \<Rightarrow> pystr list \<Rightarrow> py_exception + turn list" where
  "normalize_history U turns = normalize_loop U turns []"

text \<open>
  The script's own \<^verbatim>\<open>count_tokens\<close>: the same regex count when the tokenizer module
  could not be loaded, the module's \<^verbatim>\<open>count_tokens\<close> otherwise.
\<close>

definition demo_count_tokens :: "py_env \<Rightarrow> pystr \<Rightarrow> pystr option \<Rightarrow> py_exception + int" where
  "demo_count_tokens E text model_name =
     (if \<not> tokenizer_module E then Inr (int (length (re_findall (unicode E) text)))
      else count_tokens E text model_name)"

text \<open>\<^verbatim>\<open>xs[i:]\<close>: a negative start counts from the end, and the start is clamped.\<close>

definition slice_from :: "int \<Rightarrow> 'a list \<Rightarrow> 'a list" where
  "slice_from i xs =
     (let n = int (length xs);
          start = (if i < 0 then max (n + i) 0 else min i n)
      in drop (nat start) xs)"

definition window_by_max_turns :: "turn list \<Rightarrow> int \<Rightarrow> turn list" where
  "window_by_max_turns history max_turns =
     (if max_turns \<le> 0 then [] else slice_from (- max_turns) history)"

text \<open>The line a turn is rendered to: \<^verbatim>\<open>f"- {item['role'].capitalize()}: {item['content']}\n"\<close>\<close>

definition render_line :: "unicode_db \<Rightarrow> turn \<Rightarrow> pystr" where
  "render_line U item = py ''- '' @ capitalize U (role item) @ py '': '' @ content item @ [10]"

text \<open>
  The loop of \<^verbatim>\<open>window_by_token_budget\<close> over the reversed history, with its two
  variables \<^verbatim>\<open>acc\<close> and \<^verbatim>\<open>total\<close> (here \<open>accum\<close> and \<open>tot\<close>); \<^verbatim>\<open>break\<close> leaves the
  loop with \<^verbatim>\<open>acc\<close> as it is.
\<close>

fun budget_loop ::
  "py_env \<Rightarrow> int \<Rightarrow> pystr option \<Rightarrow> turn list \<Rightarrow> turn list \<Rightarrow> int \<Rightarrow> py_exception + turn list" where
  "budget_loop E budget model_name [] accum tot = Inr accum"
| "budget_loop E budget model_name (item # rest) accum tot =
     (case demo_count_tokens E (render_line (unicode E) item) model_name of
        Inl e \<Rightarrow> Inl e
      | Inr tokens \<Rightarrow>
          if tot + tokens > budget then Inr accum
          else budget_loop E budget model_name rest (accum @ [item]) (tot + tokens))"

definition window_by_token_budget ::
  "py_env \<Rightarrow> turn list \<Rightarrow> int \<Rightarrow> pystr option \<Rightarrow> py_exception + turn list" where
  "window_by_token_budget E history budget model_name =
     (case budget_loop E budget model_name (rev history) [] 0 of
        Inl e \<Rightarrow> Inl e
      | Inr accum \<Rightarrow> Inr (rev accum))"

text \<open>
  Lines 123 to 128 of the script: the choice of the windower. The method is the label
  the script prints, \<^verbatim>\<open>token_budget=b\<close> or \<^verbatim>\<open>max_turns=n\<close>. An absent
  \<^verbatim>\<open>--token-budget\<close> is \<^verbatim>\<open>None\<close>; \<^verbatim>\<open>None\<close> and \<^verbatim>\<open>0\<close> are falsy.
\<close>

datatype window_method = Token_budget int | Max_turns int

definition select_window ::
  "py_env \<Rightarrow> turn list \<Rightarrow> int \<Rightarrow> int option \<Rightarrow> pystr option
     \<Rightarrow> (py_exception + turn list) \<times> window_method" where
  "select_window E history max_turns token_budget model_hint =
     (case token_budget of
        None \<Rightarrow> (Inr (window_by_max_turns history max_turns), Max_turns max_turns)
      | Some b \<Rightarrow>
          if b \<noteq> 0 \<and> b > 0
          then (window_by_token_budget E history b model_hint, Token_budget b)
          else (Inr (window_by_max_turns history max_turns), Max_turns max_turns))"


section \<open>Specification-side definitions\<close>

text \<open>
  The cost of a turn is the token count of its rendered line, as the loop of
  \<open>window_by_token_budget\<close> measures it; the cost of a window is the sum over its turns.
\<close>

definition turn_cost :: "py_env \<Rightarrow> pystr option \<Rightarrow> turn \<Rightarrow> int" where
  "turn_cost E model_name item =
     (case demo_count_tokens E (render_line (unicode E) item) model_name of
        Inl e \<Rightarrow> 0 | Inr n \<Rightarrow> n)"

definition window_cost :: "py_env \<Rightarrow> pystr option \<Rightarrow> turn list \<Rightarrow> int" where
  "window_cost E model_name w = sum_list (map (turn_cost E model_name) w)"

text \<open>The regex count is in use: the tokenizer module or the library is absent.\<close>

definition uses_heuristic :: "py_env \<Rightarrow> bool" where
  "uses_heuristic E = (\<not> tokenizer_module E \<or> tiktoken E = None)"

text \<open>The greedy walk without its error plumbing: the longest prefix that fits.\<close>

fun fits :: "(turn \<Rightarrow> int) \<Rightarrow> int \<Rightarrow> int \<Rightarrow> turn list \<Rightarrow> turn list" where
  "fits cost b tot [] = []"
| "fits cost b tot (x # xs) =
     (if tot + cost x > b then [] else x # fits cost b (tot + cost x) xs)"

text \<open>The last \<open>k\<close> elements of a list.\<close>

definition last_turns :: "nat \<Rightarrow> 'a list \<Rightarrow> 'a list" where
  "last_turns k xs = rev (take k (rev xs))"

text \<open>
  The normalizer as the specification words it: the position of the first colon, the
  text before it trimmed and lower-cased, the text after it trimmed, and the role test.
\<close>

fun first_index :: "'a \<Rightarrow> 'a list \<Rightarrow> nat option" where
  "first_index x [] = None"
| "first_index x (y # ys) = (if y = x then Some 0 else map_option Suc (first_index x ys))"

definition spec_turn :: "unicode_db \<Rightarrow> pystr \<Rightarrow> turn option" where
  "spec_turn U line =
     (case first_index 58 line of
        None \<Rightarrow> None
      | Some i \<Rightarrow>
          (let r = lower U (strip U (take i line));
               c = strip U (drop (Suc i) line)
           in if r = py ''user'' \<or> r = py ''assistant''
              then Some \<lparr>role = r, content = c\<rparr> else None))"

text \<open>
  The heuristic count as the specification words it. A maximal run of word characters
  starts at every position that holds a word character and has no word character right
  before it; the other tokens are the characters that are neither word characters nor
  whitespace.
\<close>

definition run_start :: "unicode_db \<Rightarrow> pystr \<Rightarrow> nat \<Rightarrow> bool" where
  "run_start U s i = (is_word U (s ! i) \<and> (i = 0 \<or> \<not> is_word U (s ! (i - 1))))"

definition word_run_count :: "unicode_db \<Rightarrow> pystr \<Rightarrow> nat" where
  "word_run_count U s = length (filter (run_start U s) [0..<length s])"

definition punct_count :: "unicode_db \<Rightarrow> pystr \<Rightarrow> nat" where
  "punct_count U s = length (filter (\<lambda>c. \<not> is_word U c \<and> \<not> is_space U c) s)"

text \<open>The same run count by one pass that remembers whether the previous character was a word character.\<close>

fun word_runs :: "unicode_db \<Rightarrow> bool \<Rightarrow> pystr \<Rightarrow> nat" where
  "word_runs U prev [] = 0"
| "word_runs U prev (c # cs) =
     (if is_word U c \<and> \<not> prev then 1 else 0) + word_runs U (is_word U c) cs"

section \<open>Concrete environments and inputs\<close>

text \<open>Unicode tables with nothing beyond ASCII classified, enough for ASCII inputs.\<close>

definition plain_db :: unicode_db where
  "plain_db = \<lparr>u_isspace = (\<lambda>c. False), u_isalnum = (\<lambda>c. False),
                u_lower = (\<lambda>s. s), u_capitalize = (\<lambda>s. s)\<rparr>"

text \<open>An installation without the library and without the system-prompt resource.\<close>

definition env0 :: py_env where
  "env0 = \<lparr>unicode = plain_db, tiktoken = None, tokenizer_module = True,
            system_prompt_path = py ''system_prompt.md'', system_prompt_file = Missing\<rparr>"

text \<open>
  A library that knows no model by name and whose default encoding makes one token of
  every code point.
\<close>

definition stub_lib :: tiktoken_lib where
  "stub_lib = \<lparr>encoding_for_model = (\<lambda>name. Inl KeyError),
                get_encoding = (\<lambda>name. Inr (\<lambda>text. Inr text))\<rparr>"

definition env1 :: py_env where
  "env1 = env0\<lparr>tiktoken := Some stub_lib\<rparr>"

text \<open>A library whose encodings produce no token at all.\<close>

definition empty_lib :: tiktoken_lib where
  "empty_lib = \<lparr>encoding_for_model = (\<lambda>name. Inr (\<lambda>text. Inr [])),
                 get_encoding = (\<lambda>name. Inr (\<lambda>text. Inr []))\<rparr>"

definition env2 :: py_env where
  "env2 = env0\<lparr>tiktoken := Some empty_lib\<rparr>"

text \<open>A library without its default encoding, and one whose encodings fail to encode.\<close>

definition no_default_lib :: tiktoken_lib where
  "no_default_lib = \<lparr>encoding_for_model = (\<lambda>name. Inl KeyError),
                      get_encoding = (\<lambda>name. Inl ValueError)\<rparr>"

definition env4 :: py_env where
  "env4 = env0\<lparr>tiktoken := Some no_default_lib\<rparr>"

definition failing_lib :: tiktoken_lib where
  "failing_lib = \<lparr>encoding_for_model = (\<lambda>name. Inr (\<lambda>text. Inl ValueError)),
                   get_encoding = (\<lambda>name. Inr (\<lambda>text. Inl ValueError))\<rparr>"

definition env5 :: py_env where
  "env5 = env0\<lparr>tiktoken := Some failing_lib\<rparr>"

text \<open>
  A library that knows every model by name: a model's encoding makes two tokens of every
  code point, the default encoding one.
\<close>

definition model_lib :: tiktoken_lib where
  "model_lib = \<lparr>encoding_for_model = (\<lambda>name. Inr (\<lambda>text. Inr (text @ text))),
                 get_encoding = (\<lambda>name. Inr (\<lambda>text. Inr text))\<rparr>"

definition env6 :: py_env where
  "env6 = env0\<lparr>tiktoken := Some model_lib\<rparr>"

text \<open>An installation whose system-prompt resource is present.\<close>

definition env3 :: py_env where
  "env3 = env0\<lparr>system_prompt_file := Contents (py ''  You are a mentor.\<newline>'')\<rparr>"

text \<open>A resource of two lines, \<^verbatim>\<open>a\<close> and \<^verbatim>\<open>b\<close>, with a CR LF line ending between them.\<close>

definition env7 :: py_env where
  "env7 = env0\<lparr>system_prompt_file := Contents [97, 13, 10, 98]\<rparr>"

definition mk_turn :: "string \<Rightarrow> string \<Rightarrow> turn" where
  "mk_turn r c = \<lparr>role = py r, content = py c\<rparr>"

definition history1 :: "turn list" where
  "history1 = [mk_turn ''user'' ''hi'']"

definition history3 :: "turn list" where
  "history3 = [mk_turn ''user'' ''hello there, how are you?'', mk_turn ''assistant'' ''fine'',
               mk_turn ''user'' ''ok'']"

definition lines5 :: "pystr list" where
  "lines5 = [py ''user:a'', py ''assistant:b'', py ''user:c'', py ''assistant:d'', py ''user:e'']"

definition history5 :: "turn list" where
  "history5 = [mk_turn ''user'' ''a'', mk_turn ''assistant'' ''b'', mk_turn ''user'' ''c'',
               mk_turn ''assistant'' ''d'', mk_turn ''user'' ''e'']"

section \<open>Evaluation rules for concrete inputs\<close>

lemmas eval_simps = window_by_token_budget_def demo_count_tokens_def count_tokens_def
  count_tokens_try_def import_tiktoken_def model_encoding_def try_except_def
  heuristic_count_def window_cost_def turn_cost_def render_line_def py_def mk_turn_def
  capitalize_def lower_def strip_def is_ascii_def is_word_def is_space_def ascii_upper_def
  ascii_lower_def uses_heuristic_def plain_db_def env0_def env1_def env2_def env3_def
  stub_lib_def empty_lib_def no_default_lib_def failing_lib_def env4_def env5_def
  model_lib_def env6_def env7_def
  history1_def history3_def history5_def lines5_def

section \<open>The token estimator always returns\<close>

lemma count_tokens_returns: "\<exists>n. count_tokens E t m = Inr n \<and> 0 \<le> n"
  by (auto simp: count_tokens_def try_except_def count_tokens_try_def heuristic_count_def
      split: sum.splits option.splits)

lemma demo_count_tokens_returns: "\<exists>n. demo_count_tokens E t m = Inr n \<and> 0 \<le> n"
  using count_tokens_returns [of E t m] by (auto simp: demo_count_tokens_def)

lemma demo_count_tokens_cost:
  "demo_count_tokens E (render_line (unicode E) item) m = Inr (turn_cost E m item)"
  using demo_count_tokens_returns [of E "render_line (unicode E) item" m]
  by (auto simp: turn_cost_def)

lemma turn_cost_nonneg: "0 \<le> turn_cost E m item"
  using demo_count_tokens_returns [of E "render_line (unicode E) item" m]
  by (auto simp: turn_cost_def)

lemma heuristic_line_positive: "0 < length (re_findall U (render_line U item))"
  by (simp add: render_line_def py_def is_word_def is_space_def is_ascii_def)

lemma demo_count_tokens_heuristic:
  assumes "uses_heuristic E"
  shows "demo_count_tokens E s m = Inr (heuristic_count (unicode E) s)"
  using assms
  by (auto simp: uses_heuristic_def demo_count_tokens_def count_tokens_def
      count_tokens_try_def import_tiktoken_def try_except_def heuristic_count_def)

lemma turn_cost_heuristic_positive:
  assumes "uses_heuristic E"
  shows "0 < turn_cost E m item"
  using heuristic_line_positive [of "unicode E" item]
  by (simp add: turn_cost_def demo_count_tokens_heuristic [OF assms] heuristic_count_def)

section \<open>The greedy walk\<close>

lemma budget_loop_fits:
  "budget_loop E b m xs accum tot = Inr (accum @ fits (turn_cost E m) b tot xs)"
  by (induction xs arbitrary: accum tot) (auto simp: demo_count_tokens_cost)

lemma window_by_token_budget_fits:
  "window_by_token_budget E H b m = Inr (rev (fits (turn_cost E m) b 0 (rev H)))"
  by (simp add: window_by_token_budget_def budget_loop_fits)

lemma fits_prefix: "prefix (fits cost b tot xs) xs"
  by (induction xs arbitrary: tot) auto

lemma fits_sum: "tot \<le> b \<Longrightarrow> tot + sum_list (map cost (fits cost b tot xs)) \<le> b"
proof (induction xs arbitrary: tot)
  case Nil
  then show ?case by simp
next
  case (Cons a xs)
  show ?case
  proof (cases "tot + cost a > b")
    case True
    with Cons.prems show ?thesis by simp
  next
    case False
    then have "tot + cost a \<le> b" by simp
    from Cons.IH [OF this] False show ?thesis by (simp add: add.assoc)
  qed
qed

lemma fits_idem: "fits cost b tot (fits cost b tot xs) = fits cost b tot xs"
  by (induction xs arbitrary: tot) auto

lemma fits_stop:
  "fits cost b tot xs = xs \<or>
   (\<exists>x post. xs = fits cost b tot xs @ x # post \<and>
      tot + sum_list (map cost (fits cost b tot xs)) + cost x > b)"
proof (induction xs arbitrary: tot)
  case Nil
  show ?case by simp
next
  case (Cons a xs)
  show ?case
  proof (cases "tot + cost a > b")
    case True
    then show ?thesis by simp
  next
    case False
    with Cons [of "tot + cost a"] show ?thesis by (auto simp: add.assoc)
  qed
qed

lemma fits_accepted:
  "fits cost b tot xs = p @ x # q \<Longrightarrow> tot + sum_list (map cost (p @ [x])) \<le> b"
proof (induction xs arbitrary: tot p)
  case Nil
  then show ?case by simp
next
  case step: (Cons a xs)
  show ?case
  proof (cases "tot + cost a > b")
    case True
    with step.prems show ?thesis by simp
  next
    case False
    with step.prems have eq: "a # fits cost b (tot + cost a) xs = p @ x # q" by simp
    show ?thesis
    proof (cases p)
      case Nil
      with eq have "x = a" by simp
      with False Nil show ?thesis by simp
    next
      case (Cons a' p')
      from eq Cons have hd: "a' = a" by simp
      from eq Cons have tl: "fits cost b (tot + cost a) xs = p' @ x # q" by auto
      have "tot + cost a + sum_list (map cost (p' @ [x])) \<le> b"
        using tl by (rule step.IH)
      with Cons hd show ?thesis by (simp add: add.assoc)
    qed
  qed
qed

lemma fits_zero: "\<forall>x\<in>set xs. 0 < cost x \<Longrightarrow> fits cost 0 0 xs = []"
  by (cases xs) auto

lemma fits_each:
  assumes "0 \<le> tot" "\<forall>x. 0 \<le> cost x" "x \<in> set (fits cost b tot xs)"
  shows "cost x \<le> b"
  using assms
proof (induction xs arbitrary: tot)
  case Nil
  then show ?case by simp
next
  case (Cons a xs)
  show ?case
  proof (cases "tot + cost a > b")
    case True
    with Cons.prems show ?thesis by simp
  next
    case False
    from Cons.prems(2) have a: "0 \<le> cost a" by simp
    show ?thesis
    proof (cases "x = a")
      case True
      with False Cons.prems(1) show ?thesis by simp
    next
      case ne: False
      with False Cons.prems(3) have "x \<in> set (fits cost b (tot + cost a) xs)" by simp
      moreover have "0 \<le> tot + cost a" using a Cons.prems(1) by simp
      ultimately show ?thesis using Cons.IH Cons.prems(2) by blast
    qed
  qed
qed

section \<open>Slicing\<close>

lemma slice_from_neg:
  assumes "0 < n"
  shows "slice_from (- n) xs = drop (length xs - nat n) xs"
proof -
  have "nat (max (int (length xs) + - n) 0) = length xs - nat n"
    using assms by linarith
  then show ?thesis using assms by (simp add: slice_from_def Let_def)
qed

lemma max_turns_suffix: "suffix (window_by_max_turns H n) H"
  by (simp add: window_by_max_turns_def slice_from_def Let_def suffix_drop)

section \<open>Splitting and trimming\<close>

lemma first_index_None: "first_index x xs = None \<longleftrightarrow> x \<notin> set xs"
  by (induction xs) auto

lemma split1_first_index:
  "first_index sep s = Some i \<Longrightarrow> split1 sep s = [take i s, drop (Suc i) s]"
  by (induction s arbitrary: i) (auto simp: Let_def split: if_splits)

lemma parse_turn_spec: "parse_turn U line = Inr (spec_turn U line)"
proof (cases "first_index 58 line")
  case None
  then have "58 \<notin> set line" by (simp add: first_index_None)
  with None show ?thesis by (simp add: parse_turn_def spec_turn_def)
next
  case (Some i)
  then have "58 \<in> set line" using first_index_None [of 58 line] by auto
  with Some show ?thesis
    by (simp add: parse_turn_def spec_turn_def split1_first_index Let_def)
qed

lemma normalize_loop_spec:
  "normalize_loop U lines parsed = Inr (parsed @ List.map_filter (spec_turn U) lines)"
  by (induction lines arbitrary: parsed)
     (auto simp: parse_turn_spec map_filter_simps split: option.splits)

lemma last_dropWhile_same: "dropWhile P xs \<noteq> [] \<Longrightarrow> last (dropWhile P xs) = last xs"
  by (induction xs) (auto split: if_splits)

lemma strip_ends:
  "strip U t = [] \<or> (\<not> is_space U (hd (strip U t)) \<and> \<not> is_space U (last (strip U t)))"
proof (cases "strip U t = []")
  case True
  then show ?thesis by simp
next
  case False
  let ?P = "is_space U"
  let ?ys = "dropWhile ?P t"
  let ?zs = "dropWhile ?P (rev ?ys)"
  have s: "strip U t = rev ?zs" by (simp add: strip_def)
  with False have zs: "?zs \<noteq> []" by simp
  have ys: "?ys \<noteq> []"
  proof
    assume e: "?ys = []"
    have "?zs = []" by (simp only: e rev.simps dropWhile.simps)
    with zs show False by simp
  qed
  have "last (strip U t) = hd ?zs" using zs s by (simp add: last_rev)
  moreover have "\<not> ?P (hd ?zs)" using zs by (rule hd_dropWhile)
  moreover have "hd (strip U t) = last ?zs" using zs s by (simp add: hd_rev)
  moreover have "last ?zs = last (rev ?ys)" using zs by (rule last_dropWhile_same)
  moreover have "last (rev ?ys) = hd ?ys" using ys by (simp add: last_rev)
  moreover have "\<not> ?P (hd ?ys)" using ys by (rule hd_dropWhile)
  ultimately show ?thesis by simp
qed

lemma list_all_takeWhile: "list_all P (takeWhile P xs)"
  by (induction xs) auto

lemma strip_middle:
  "\<exists>pre post. t = pre @ strip U t @ post \<and> list_all (is_space U) pre \<and> list_all (is_space U) post"
proof -
  let ?P = "is_space U"
  let ?ys = "dropWhile ?P t"
  let ?zs = "dropWhile ?P (rev ?ys)"
  have "rev ?ys = takeWhile ?P (rev ?ys) @ ?zs" by simp
  then have "rev (rev ?ys) = rev (takeWhile ?P (rev ?ys) @ ?zs)" by (rule arg_cong)
  then have "?ys = rev ?zs @ rev (takeWhile ?P (rev ?ys))"
    by (simp only: rev_rev_ident rev_append)
  moreover have "t = takeWhile ?P t @ ?ys" by simp
  ultimately have "t = takeWhile ?P t @ strip U t @ rev (takeWhile ?P (rev ?ys))"
    by (simp add: strip_def)
  moreover have "list_all ?P (takeWhile ?P t)" by (rule list_all_takeWhile)
  moreover have "list_all ?P (rev (takeWhile ?P (rev ?ys)))"
    by (simp add: list_all_takeWhile)
  ultimately show ?thesis by blast
qed

lemma universal_newlines_id: "13 \<notin> set t \<Longrightarrow> universal_newlines t = t"
  by (induction t rule: universal_newlines.induct) auto

section \<open>Counting the regex matches\<close>

lemma word_runs_True_dropWhile:
  "word_runs U True cs = word_runs U True (dropWhile (is_word U) cs)"
  by (induction cs) auto

lemma punct_dropWhile: "punct_count U (dropWhile (is_word U) cs) = punct_count U cs"
  by (induction cs) (auto simp: punct_count_def)

lemma word_runs_flag:
  "(case s of [] \<Rightarrow> True | c # _ \<Rightarrow> \<not> is_word U c) \<Longrightarrow> word_runs U True s = word_runs U False s"
  by (cases s) auto

lemma dropWhile_head: "(case dropWhile P s of [] \<Rightarrow> True | c # _ \<Rightarrow> \<not> P c)"
  by (induction s) auto

lemma length_re_findall:
  "length (re_findall U s) = word_runs U False s + punct_count U s"
proof (induction U s rule: re_findall.induct)
  case (1 U)
  show ?case by (simp add: punct_count_def)
next
  case (2 U c cs)
  show ?case
  proof (cases "is_word U c")
    case True
    have "word_runs U True cs = word_runs U True (dropWhile (is_word U) cs)"
      by (rule word_runs_True_dropWhile)
    also have "\<dots> = word_runs U False (dropWhile (is_word U) cs)"
      by (rule word_runs_flag) (rule dropWhile_head)
    finally have w: "word_runs U True cs = word_runs U False (dropWhile (is_word U) cs)" .
    have p: "punct_count U (c # cs) = punct_count U (dropWhile (is_word U) cs)"
      using True by (simp add: punct_dropWhile) (simp add: punct_count_def)
    show ?thesis using True 2(1) w p by simp
  next
    case False
    then show ?thesis using 2(2,3) by (auto simp: punct_count_def)
  qed
qed

lemma word_runs_positions:
  "word_runs U prev s =
     length (filter (\<lambda>i. is_word U (s ! i) \<and> (if i = 0 then \<not> prev else \<not> is_word U (s ! (i - 1))))
               [0..<length s])"
proof (induction s arbitrary: prev)
  case Nil
  show ?case by simp
next
  case (Cons c cs)
  let ?Q = "\<lambda>p i. is_word U (cs ! i) \<and> (if i = 0 then \<not> p else \<not> is_word U (cs ! (i - 1)))"
  let ?P = "\<lambda>i. is_word U ((c # cs) ! i) \<and>
                 (if i = 0 then \<not> prev else \<not> is_word U ((c # cs) ! (i - 1)))"
  have up: "[0..<length (c # cs)] = 0 # map Suc [0..<length cs]"
    by (simp add: upt_conv_Cons map_Suc_upt del: upt_Suc)
  have "(?P \<circ> Suc) i = ?Q (is_word U c) i" for i
    by (cases i) simp_all
  then have eq: "?P \<circ> Suc = ?Q (is_word U c)" by (rule ext)
  have "length (filter ?P (map Suc [0..<length cs])) = length (filter (?P \<circ> Suc) [0..<length cs])"
    by (simp only: filter_map length_map)
  also have "\<dots> = word_runs U (is_word U c) cs"
    by (simp only: eq Cons.IH [of "is_word U c"])
  finally have tl: "length (filter ?P (map Suc [0..<length cs])) = word_runs U (is_word U c) cs" .
  have "length (filter ?P [0..<length (c # cs)]) =
          (if ?P 0 then 1 else 0) + length (filter ?P (map Suc [0..<length cs]))"
    by (simp only: up filter.simps) simp
  also have "\<dots> = (if is_word U c \<and> \<not> prev then 1 else 0) + word_runs U (is_word U c) cs"
    by (simp only: tl) simp
  finally show ?case by simp
qed

lemma word_runs_count: "word_runs U False s = word_run_count U s"
proof -
  have "(\<lambda>i. is_word U (s ! i) \<and> (if i = 0 then \<not> False else \<not> is_word U (s ! (i - 1))))
          = run_start U s"
    by (rule ext) (simp add: run_start_def)
  then show ?thesis by (simp only: word_runs_positions word_run_count_def)
qed


section \<open>The claims\<close>

text \<open>
  C1. For every budget \<open>b \<ge> 0\<close>, every history and every model hint,
  \<open>window_by_token_budget\<close> returns a window made of whole turns of the history (a
  suffix of it) whose rendered-line token costs sum to at most \<open>b\<close>; no turn whose own
  cost exceeds \<open>b\<close> is in it; and for \<open>b = 0\<close> the window is empty whenever the
  estimator gives every rendered line of the history at least one token, which the
  heuristic estimator always does.
\<close>

theorem token_budget_respected:
  assumes "0 \<le> b"
  shows "\<exists>w. window_by_token_budget E H b m = Inr w
           \<and> suffix w H
           \<and> window_cost E m w \<le> b
           \<and> (\<forall>t\<in>set w. turn_cost E m t \<le> b)
           \<and> (b = 0 \<and> (uses_heuristic E \<or> (\<forall>t\<in>set H. 0 < turn_cost E m t)) \<longrightarrow> w = [])"
proof -
  let ?c = "turn_cost E m"
  let ?w = "rev (fits ?c b 0 (rev H))"
  have r: "window_by_token_budget E H b m = Inr ?w"
    by (rule window_by_token_budget_fits)
  have s: "suffix ?w H"
    using fits_prefix [of ?c b 0 "rev H"] by (simp add: suffix_to_prefix)
  have c: "window_cost E m ?w \<le> b"
    using fits_sum [of 0 b ?c "rev H"] assms by (simp add: window_cost_def rev_map [symmetric])
  have e: "\<forall>t\<in>set ?w. ?c t \<le> b"
    using fits_each [of 0 ?c _ b "rev H"] turn_cost_nonneg by auto
  have z: "b = 0 \<and> (uses_heuristic E \<or> (\<forall>t\<in>set H. 0 < ?c t)) \<longrightarrow> ?w = []"
  proof
    assume h: "b = 0 \<and> (uses_heuristic E \<or> (\<forall>t\<in>set H. 0 < ?c t))"
    then have "\<forall>t\<in>set (rev H). 0 < ?c t"
      using turn_cost_heuristic_positive by auto
    from fits_zero [OF this] h show "?w = []" by simp
  qed
  from r s c e z show ?thesis by blast
qed

text \<open>
  At budget 8 the three-turn history, whose turns cost 10, 4 and 4 tokens, keeps its last
  two turns, which cost 8 together.
\<close>

theorem token_budget_respected_witness:
  "(0::int) \<le> 8
   \<and> map (turn_cost env0 None) history3 = [10, 4, 4]
   \<and> window_by_token_budget env0 history3 8 None = Inr (drop 1 history3)
   \<and> window_cost env0 None (drop 1 history3) = 8
   \<and> (\<exists>w. window_by_token_budget env0 history3 8 None = Inr w
          \<and> suffix w history3
          \<and> window_cost env0 None w \<le> 8
          \<and> (\<forall>t\<in>set w. turn_cost env0 None t \<le> 8))
   \<and> uses_heuristic env0
   \<and> window_by_token_budget env0 history3 0 None = Inr []"
  using token_budget_respected [of 8 env0 history3 None]
    token_budget_respected [of 0 env0 history3 None]
  by (simp add: eval_simps)

text \<open>
  The claim as written, for every integer budget and every estimator, fails twice. At
  budget \<open>-1\<close> the window is empty and its cost 0 is above the budget. At budget 0 with
  a library whose encodings produce no token, every turn costs 0 and the whole history
  is returned.
\<close>

theorem token_budget_counterexample:
  "window_by_token_budget env0 history1 (- 1) None = Inr []
   \<and> \<not> window_cost env0 None [] \<le> - 1
   \<and> history1 \<noteq> []
   \<and> window_by_token_budget env2 history1 0 None = Inr history1"
  by (simp add: eval_simps)

text \<open>
  C2. For every history and either constraint the window is a contiguous suffix of the
  history in its original order. The max-turn window has \<open>min n (length H)\<close> turns
  (none for \<open>n \<le> 0\<close>). The token-budget walk takes turns from the most recent one
  backwards as long as they fit and stops at the first turn that would overflow: every
  turn of the window, together with all more recent turns, costs at most the budget;
  and unless the whole history is returned, the turn right before the window is one
  whose cost, added to the cost of the window, exceeds the budget.
\<close>

theorem windows_are_suffixes:
  "suffix (window_by_max_turns H n) H
   \<and> length (window_by_max_turns H n) = min (nat n) (length H)
   \<and> (\<exists>w. window_by_token_budget E H b m = Inr w \<and> suffix w H
        \<and> (\<forall>older x newer. w = older @ x # newer \<longrightarrow> window_cost E m (x # newer) \<le> b)
        \<and> (w = H \<or> (\<exists>older t. H = older @ t # w \<and> window_cost E m w + turn_cost E m t > b)))"
proof -
  let ?c = "turn_cost E m"
  let ?f = "fits ?c b 0 (rev H)"
  have a: "suffix (window_by_max_turns H n) H"
    by (rule max_turns_suffix)
  have l: "length (window_by_max_turns H n) = min (nat n) (length H)"
  proof (cases "n \<le> 0")
    case True
    then show ?thesis by (simp add: window_by_max_turns_def)
  next
    case False
    then have "0 < n" by simp
    then show ?thesis by (simp add: window_by_max_turns_def slice_from_neg)
  qed
  have r: "window_by_token_budget E H b m = Inr (rev ?f)"
    by (rule window_by_token_budget_fits)
  have s: "suffix (rev ?f) H"
    using fits_prefix [of ?c b 0 "rev H"] by (simp add: suffix_to_prefix)
  have u: "\<forall>older x newer. rev ?f = older @ x # newer \<longrightarrow> window_cost E m (x # newer) \<le> b"
  proof (intro allI impI)
    fix older x newer
    assume "rev ?f = older @ x # newer"
    then have "rev (rev ?f) = rev (older @ x # newer)" by (rule arg_cong)
    then have "?f = rev newer @ x # rev older" by simp
    from fits_accepted [OF this]
    have "sum_list (map ?c (rev newer @ [x])) \<le> b" by simp
    then show "window_cost E m (x # newer) \<le> b"
      by (simp add: window_cost_def rev_map [symmetric] add.commute)
  qed
  have t: "rev ?f = H \<or> (\<exists>older t. H = older @ t # rev ?f \<and> window_cost E m (rev ?f) + ?c t > b)"
  proof (cases "?f = rev H")
    case True
    then show ?thesis by simp
  next
    case False
    with fits_stop [of ?c b 0 "rev H"] obtain x post
      where x: "rev H = ?f @ x # post" "0 + sum_list (map ?c ?f) + ?c x > b" by blast
    from x(1) have "rev (rev H) = rev (?f @ x # post)" by (rule arg_cong)
    then have "H = rev post @ x # rev ?f" by simp
    moreover have "window_cost E m (rev ?f) + ?c x > b"
      using x(2) by (simp add: window_cost_def rev_map [symmetric])
    ultimately show ?thesis by blast
  qed
  from a l r s u t show ?thesis by blast
qed

text \<open>
  The three turns cost 10, 4 and 4 tokens. At budget 8 the last two are kept and the
  first would overflow; at budget 4 only the last one is kept, since the last two cost 8.
\<close>

theorem windows_are_suffixes_witness:
  "window_by_max_turns history3 2 = drop 1 history3
   \<and> window_by_token_budget env0 history3 8 None = Inr (drop 1 history3)
   \<and> suffix (drop 1 history3) history3
   \<and> drop 1 history3 = [] @ hd (drop 1 history3) # drop 2 history3
   \<and> window_cost env0 None (hd (drop 1 history3) # drop 2 history3) \<le> 8
   \<and> history3 = [] @ hd history3 # drop 1 history3
   \<and> window_cost env0 None (drop 1 history3) + turn_cost env0 None (hd history3) > 8
   \<and> window_by_token_budget env0 history3 4 None = Inr (drop 2 history3)
   \<and> window_cost env0 None (drop 1 history3) = 8"
  using windows_are_suffixes [of history3 2 env0 8 None]
    windows_are_suffixes [of history3 2 env0 4 None]
  by (simp add: eval_simps window_by_max_turns_def slice_from_def)

text \<open>
  C3. Windowing is idempotent: for every history and either constraint, windowing the
  window again under the same constraint returns it unchanged.
\<close>

theorem windowing_idempotent:
  "window_by_max_turns (window_by_max_turns H n) n = window_by_max_turns H n
   \<and> (\<exists>w. window_by_token_budget E H b m = Inr w \<and> window_by_token_budget E w b m = Inr w)"
proof -
  have a: "window_by_max_turns (window_by_max_turns H n) n = window_by_max_turns H n"
  proof (cases "n \<le> 0")
    case True
    then show ?thesis by (simp add: window_by_max_turns_def)
  next
    case False
    then have n: "0 < n" by simp
    then show ?thesis by (simp add: window_by_max_turns_def slice_from_neg)
  qed
  let ?c = "turn_cost E m"
  let ?f = "fits ?c b 0 (rev H)"
  have "window_by_token_budget E (rev ?f) b m = Inr (rev (fits ?c b 0 ?f))"
    by (simp add: window_by_token_budget_fits)
  then have "window_by_token_budget E (rev ?f) b m = Inr (rev ?f)"
    by (simp add: fits_idem)
  with a window_by_token_budget_fits [of E H b m] show ?thesis by simp
qed

theorem windowing_idempotent_witness:
  "window_by_max_turns history3 2 = drop 1 history3
   \<and> window_by_max_turns (drop 1 history3) 2 = drop 1 history3
   \<and> window_by_token_budget env0 history3 8 None = Inr (drop 1 history3)
   \<and> window_by_token_budget env0 (drop 1 history3) 8 None = Inr (drop 1 history3)"
  using windowing_idempotent [of history3 2 env0 8 None]
  by (simp add: eval_simps window_by_max_turns_def slice_from_def)

text \<open>
  C4. Whenever a positive token budget is supplied together with a max-turn count, the
  token-budget windower is used and the max-turn count is ignored, without an error. A
  supplied budget that is zero or negative counts as not supplied: the max-turn
  windower is used, as it is when no budget is given.
\<close>

theorem token_budget_precedence:
  "(0 < b \<longrightarrow>
      select_window E H n (Some b) m = (window_by_token_budget E H b m, Token_budget b))
   \<and> (b \<le> 0 \<longrightarrow>
      select_window E H n (Some b) m = (Inr (window_by_max_turns H n), Max_turns n))
   \<and> select_window E H n None m = (Inr (window_by_max_turns H n), Max_turns n)"
  by (simp add: select_window_def)

theorem token_budget_precedence_witness:
  "(0::int) < 8
   \<and> select_window env0 history3 1 (Some 8) None = (Inr (drop 1 history3), Token_budget 8)
   \<and> window_by_max_turns history3 1 = drop 2 history3
   \<and> (- 3::int) \<le> 0
   \<and> select_window env0 history3 1 (Some (- 3)) None = (Inr (drop 2 history3), Max_turns 1)"
  using token_budget_precedence [of 8 env0 history3 1 None]
    token_budget_precedence [of "- 3" env0 history3 1 None]
  by (simp add: eval_simps window_by_max_turns_def slice_from_def)

text \<open>
  With \<^verbatim>\<open>--token-budget 0\<close> supplied next to \<^verbatim>\<open>--max-turns 6\<close> the max-turn windower
  is the one used: the one-turn history is kept whole, where the token-budget windower
  would return nothing.
\<close>

theorem token_budget_precedence_counterexample:
  "select_window env0 history1 6 (Some 0) None = (Inr history1, Max_turns 6)
   \<and> window_by_token_budget env0 history1 0 None = Inr []
   \<and> history1 \<noteq> []"
  by (simp add: select_window_def eval_simps window_by_max_turns_def slice_from_def)

text \<open>
  C5. For a max-turn count \<open>n \<le> 0\<close> the windower returns the empty history; for
  \<open>n > 0\<close> it returns exactly the last \<open>min n (length H)\<close> turns of the history, in
  order.
\<close>

theorem max_turns_window:
  "(n \<le> 0 \<longrightarrow> window_by_max_turns H n = [])
   \<and> (0 < n \<longrightarrow> window_by_max_turns H n = last_turns (min (nat n) (length H)) H
        \<and> length (window_by_max_turns H n) = min (nat n) (length H)
        \<and> suffix (window_by_max_turns H n) H)"
proof -
  have "window_by_max_turns H n = last_turns (min (nat n) (length H)) H" if "0 < n"
  proof -
    have "length H - min (nat n) (length H) = length H - nat n" by linarith
    then have "rev (take (min (nat n) (length H)) (rev H)) = drop (length H - nat n) H"
      by (simp add: rev_take)
    with that show ?thesis by (simp add: window_by_max_turns_def slice_from_neg last_turns_def)
  qed
  moreover have "length (window_by_max_turns H n) = min (nat n) (length H)" if "0 < n"
    using that by (simp add: window_by_max_turns_def slice_from_neg)
  moreover have "suffix (window_by_max_turns H n) H"
    by (rule max_turns_suffix)
  moreover have "n \<le> 0 \<longrightarrow> window_by_max_turns H n = []"
    by (simp add: window_by_max_turns_def)
  ultimately show ?thesis by blast
qed

text \<open>
  The five lines \<^verbatim>\<open>user:a, assistant:b, user:c, assistant:d, user:e\<close> normalize to five
  turns, and a max-turn count of 4 drops only the first of them.
\<close>

theorem max_turns_window_witness:
  "normalize_history plain_db lines5 = Inr history5
   \<and> (0::int) < 4
   \<and> window_by_max_turns history5 4 = drop 1 history5
   \<and> last_turns (min (nat 4) (length history5)) history5 = drop 1 history5
   \<and> window_by_max_turns history5 0 = []
   \<and> window_by_max_turns history5 9 = history5"
  using max_turns_window [of 4 history5] max_turns_window [of 0 history5]
  by (simp add: eval_simps window_by_max_turns_def slice_from_def last_turns_def
      normalize_history_def parse_turn_def)

text \<open>
  C6. The normalizer never raises and returns, in input order, the turns of the lines
  that have a colon and whose text before the first colon, trimmed and lower-cased, is
  \<^verbatim>\<open>user\<close> or \<^verbatim>\<open>assistant\<close>; the content of a turn is the trimmed text after that colon.
  Every other line is dropped.
\<close>

theorem normalize_history_spec:
  "normalize_history U lines = Inr (List.map_filter (spec_turn U) lines)"
  by (simp add: normalize_history_def normalize_loop_spec)

theorem normalize_history_spec_witness:
  "normalize_history plain_db [py ''bogus line with no colon'', py ''system: hi''] = Inr []
   \<and> normalize_history plain_db [py '' User : hi: there '', py ''nobody: x'', py ''ASSISTANT:ok'']
       = Inr [mk_turn ''user'' ''hi: there'', mk_turn ''assistant'' ''ok'']"
  using normalize_history_spec [of plain_db "[py ''bogus line with no colon'', py ''system: hi'']"]
    normalize_history_spec
      [of plain_db "[py '' User : hi: there '', py ''nobody: x'', py ''ASSISTANT:ok'']"]
  by (simp add: eval_simps spec_turn_def map_filter_simps)

text \<open>
  C7. The heuristic count of a text is the number of maximal runs of word characters
  plus the number of characters that are neither word characters nor whitespace. It is
  never negative, it is 0 for the empty text, and \<^verbatim>\<open>Hello, world!\<close> has the four tokens
  \<^verbatim>\<open>Hello\<close>, \<^verbatim>\<open>,\<close>, \<^verbatim>\<open>world\<close>, \<^verbatim>\<open>!\<close>. It is what the script's estimator returns when the
  tokenizer module or the library is absent.
\<close>

theorem heuristic_counts_runs:
  "heuristic_count U s = int (word_run_count U s + punct_count U s)
   \<and> 0 \<le> heuristic_count U s
   \<and> heuristic_count U [] = 0
   \<and> re_findall U (py ''Hello, world!'') = [py ''Hello'', py '','', py ''world'', py ''!'']
   \<and> heuristic_count U (py ''Hello, world!'') = 4
   \<and> (uses_heuristic E \<longrightarrow> demo_count_tokens E s m = Inr (heuristic_count (unicode E) s))"
proof -
  have a: "heuristic_count U s = int (word_run_count U s + punct_count U s)"
    by (simp only: heuristic_count_def length_re_findall word_runs_count)
  have b: "re_findall U (py ''Hello, world!'') = [py ''Hello'', py '','', py ''world'', py ''!'']"
    by (simp add: py_def is_word_def is_space_def is_ascii_def)
  have c: "uses_heuristic E \<longrightarrow> demo_count_tokens E s m = Inr (heuristic_count (unicode E) s)"
    by (simp add: demo_count_tokens_heuristic)
  from a b c show ?thesis by (simp add: heuristic_count_def)
qed

theorem heuristic_counts_runs_witness:
  "uses_heuristic env0
   \<and> demo_count_tokens env0 (py ''Hello, world!'') None = Inr 4
   \<and> word_run_count plain_db (py ''Hello, world!'') = 2
   \<and> punct_count plain_db (py ''Hello, world!'') = 2
   \<and> heuristic_count plain_db (py ''snake_case x9  ...'') = 5"
  using heuristic_counts_runs [of plain_db "py ''Hello, world!''" env0 None]
    heuristic_counts_runs [of plain_db "py ''snake_case x9  ...''" env0 None]
  by (simp add: eval_simps punct_count_def)

text \<open>
  C8. When the system-prompt resource is missing, \<open>build_prompt\<close> fails with the
  reported \<^verbatim>\<open>FileNotFoundError\<close> for every user message: the only step taken is the one
  existence check, the resource is not read, no default is put in its place, the user
  message is not processed and no prompt parts are produced.
\<close>

theorem missing_resource_fails:
  "system_prompt_file E = Missing \<Longrightarrow>
   build_prompt E user_message =
     ([Check_exists],
      Inl (FileNotFoundError (py ''Missing system prompt at '' @ system_prompt_path E)))"
  by (simp add: build_prompt_def load_system_prompt_def)

theorem missing_resource_fails_witness:
  "system_prompt_file env0 = Missing
   \<and> build_prompt env0 (py ''  Explain recursion '') =
       ([Check_exists],
        Inl (FileNotFoundError (py ''Missing system prompt at system_prompt.md'')))"
  using missing_resource_fails [of env0 "py ''  Explain recursion ''"]
  by (simp add: eval_simps)

text \<open>
  C9. \<open>count_tokens\<close> always returns a non-negative integer: no exception of the
  primary strategy reaches the caller. Every exception that leaves the primary strategy
  is replaced by the heuristic count: a missing library, a failing lookup of the default
  encoding, and a failing \<^verbatim>\<open>encode\<close> of whichever encoding was chosen, the model's or
  the default one. An exception of the model-specific lookup (an unrecognized model) is
  passed over inside the primary strategy, which goes on with the default encoding
  exactly as if no model hint had been given, and so does an empty hint. Where nothing
  raises, the count is the number of tokens of the chosen encoding.
\<close>

theorem primary_errors_swallowed:
  "(\<exists>n. count_tokens E text m = Inr n \<and> 0 \<le> n)
   \<and> (\<forall>e. count_tokens_try E text m = Inl e
          \<longrightarrow> count_tokens E text m = Inr (heuristic_count (unicode E) text))
   \<and> (tiktoken E = None \<longrightarrow> count_tokens_try E text m = Inl ImportError)
   \<and> (tiktoken E = None \<longrightarrow> count_tokens E text m = Inr (heuristic_count (unicode E) text))
   \<and> (\<forall>lib name e. tiktoken E = Some lib \<and> encoding_for_model lib name = Inl e
          \<longrightarrow> count_tokens E text (Some name) = count_tokens E text None)
   \<and> count_tokens E text (Some []) = count_tokens E text None
   \<and> (\<forall>lib e. tiktoken E = Some lib \<and> get_encoding lib (py ''cl100k_base'') = Inl e
          \<longrightarrow> count_tokens E text None = Inr (heuristic_count (unicode E) text))
   \<and> (\<forall>lib enc e. tiktoken E = Some lib \<and> get_encoding lib (py ''cl100k_base'') = Inr enc
            \<and> enc text = Inl e
          \<longrightarrow> count_tokens E text None = Inr (heuristic_count (unicode E) text))
   \<and> (\<forall>lib enc toks. tiktoken E = Some lib \<and> get_encoding lib (py ''cl100k_base'') = Inr enc
            \<and> enc text = Inr toks
          \<longrightarrow> count_tokens E text None = Inr (int (length toks)))
   \<and> (\<forall>lib name enc e. tiktoken E = Some lib \<and> name \<noteq> []
            \<and> encoding_for_model lib name = Inr enc \<and> enc text = Inl e
          \<longrightarrow> count_tokens E text (Some name) = Inr (heuristic_count (unicode E) text))
   \<and> (\<forall>lib name enc toks. tiktoken E = Some lib \<and> name \<noteq> []
            \<and> encoding_for_model lib name = Inr enc \<and> enc text = Inr toks
          \<longrightarrow> count_tokens E text (Some name) = Inr (int (length toks)))"
proof -
  note defs = count_tokens_def count_tokens_try_def import_tiktoken_def model_encoding_def
    try_except_def
  have h1: "\<exists>n. count_tokens E text m = Inr n \<and> 0 \<le> n"
    by (rule count_tokens_returns)
  have h2: "\<forall>e. count_tokens_try E text m = Inl e
          \<longrightarrow> count_tokens E text m = Inr (heuristic_count (unicode E) text)"
    by (simp add: count_tokens_def try_except_def)
  have h3: "tiktoken E = None \<longrightarrow> count_tokens_try E text m = Inl ImportError"
    by (simp add: count_tokens_try_def import_tiktoken_def)
  have h3b: "tiktoken E = None \<longrightarrow> count_tokens E text m = Inr (heuristic_count (unicode E) text)"
    by (simp add: defs)
  have h4: "\<forall>lib name e. tiktoken E = Some lib \<and> encoding_for_model lib name = Inl e
          \<longrightarrow> count_tokens E text (Some name) = count_tokens E text None"
    by (auto simp: defs)
  have h4b: "count_tokens E text (Some []) = count_tokens E text None"
    by (cases "tiktoken E") (simp_all add: defs)
  have h5: "\<forall>lib e. tiktoken E = Some lib \<and> get_encoding lib (py ''cl100k_base'') = Inl e
          \<longrightarrow> count_tokens E text None = Inr (heuristic_count (unicode E) text)"
    by (simp add: defs)
  have h6: "\<forall>lib enc e. tiktoken E = Some lib \<and> get_encoding lib (py ''cl100k_base'') = Inr enc
            \<and> enc text = Inl e
          \<longrightarrow> count_tokens E text None = Inr (heuristic_count (unicode E) text)"
    by (simp add: defs)
  have h7: "\<forall>lib enc toks. tiktoken E = Some lib \<and> get_encoding lib (py ''cl100k_base'') = Inr enc
            \<and> enc text = Inr toks
          \<longrightarrow> count_tokens E text None = Inr (int (length toks))"
    by (simp add: defs)
  have h8: "\<forall>lib name enc e. tiktoken E = Some lib \<and> name \<noteq> []
            \<and> encoding_for_model lib name = Inr enc \<and> enc text = Inl e
          \<longrightarrow> count_tokens E text (Some name) = Inr (heuristic_count (unicode E) text)"
    by (simp add: defs)
  have h9: "\<forall>lib name enc toks. tiktoken E = Some lib \<and> name \<noteq> []
            \<and> encoding_for_model lib name = Inr enc \<and> enc text = Inr toks
          \<longrightarrow> count_tokens E text (Some name) = Inr (int (length toks))"
    by (simp add: defs)
  from h1 h2 h3 h3b h4 h4b h5 h6 h7 h8 h9 show ?thesis by blast
qed

text \<open>
  The text \<^verbatim>\<open>ab\<close> has the heuristic count 1. Without the library, without a default
  encoding, and with encodings that fail to encode (under a recognized model as well as
  without a hint) the count is 1; an unrecognized model gives the default encoding's 2;
  a recognized model gives its own encoding's 4.
\<close>

theorem primary_errors_swallowed_witness:
  "tiktoken env0 = None
   \<and> count_tokens_try env0 (py ''ab'') (Some (py ''gpt-3.5-turbo'')) = Inl ImportError
   \<and> count_tokens env0 (py ''ab'') (Some (py ''gpt-3.5-turbo'')) = Inr 1
   \<and> heuristic_count plain_db (py ''ab'') = 1
   \<and> tiktoken env1 = Some stub_lib
   \<and> encoding_for_model stub_lib (py ''no-such-model'') = Inl KeyError
   \<and> count_tokens env1 (py ''ab'') (Some (py ''no-such-model''))
       = count_tokens env1 (py ''ab'') None
   \<and> count_tokens env1 (py ''ab'') None = Inr 2
   \<and> get_encoding no_default_lib (py ''cl100k_base'') = Inl ValueError
   \<and> count_tokens env4 (py ''ab'') None = Inr 1
   \<and> count_tokens_try env5 (py ''ab'') None = Inl ValueError
   \<and> count_tokens env5 (py ''ab'') None = Inr 1
   \<and> py ''gpt-3.5-turbo'' \<noteq> []
   \<and> count_tokens_try env5 (py ''ab'') (Some (py ''gpt-3.5-turbo'')) = Inl ValueError
   \<and> count_tokens env5 (py ''ab'') (Some (py ''gpt-3.5-turbo'')) = Inr 1
   \<and> count_tokens env6 (py ''ab'') (Some (py ''gpt-3.5-turbo'')) = Inr 4
   \<and> count_tokens env6 (py ''ab'') (Some []) = Inr 2"
  using primary_errors_swallowed [of env0 "py ''ab''" "Some (py ''gpt-3.5-turbo'')"]
    primary_errors_swallowed [of env1 "py ''ab''" "Some (py ''no-such-model'')"]
    primary_errors_swallowed [of env4 "py ''ab''" None]
    primary_errors_swallowed [of env5 "py ''ab''" "Some (py ''gpt-3.5-turbo'')"]
    primary_errors_swallowed [of env6 "py ''ab''" "Some (py ''gpt-3.5-turbo'')"]
  by (simp add: eval_simps)

text \<open>
  An unrecognized model does not lead to the heuristic count: with a library that knows
  no model by name and a working default encoding, the lookup raises, and the count
  returned is the default encoding's 2, not the heuristic's 1.
\<close>

theorem unknown_model_counterexample:
  "encoding_for_model stub_lib (py ''no-such-model'') = Inl KeyError
   \<and> count_tokens env1 (py ''ab'') (Some (py ''no-such-model'')) = Inr 2
   \<and> heuristic_count (unicode env1) (py ''ab'') = 1"
  by (simp add: eval_simps)

text \<open>
  C10. Whenever the system-prompt resource exists and can be read, \<open>build_prompt\<close>
  succeeds and its system field is the stripped text of the resource as text mode reads
  it, that is with every CR LF and every lone CR of the resource turned into LF: that
  text with a run of whitespace removed at each end, so that the field neither starts
  nor ends with whitespace. For a resource without CR the field is the stripped
  resource text itself.
\<close>

theorem system_is_stripped:
  assumes "system_prompt_file E = Contents t"
  shows "\<exists>p. build_prompt E user_message = ([Check_exists, Read_text, Strip_user_message], Inr p)
           \<and> system p = strip (unicode E) (universal_newlines t)
           \<and> (system p = [] \<or>
                (\<not> is_space (unicode E) (hd (system p)) \<and> \<not> is_space (unicode E) (last (system p))))
           \<and> (\<exists>pre post. universal_newlines t = pre @ system p @ post
                 \<and> list_all (is_space (unicode E)) pre \<and> list_all (is_space (unicode E)) post)
           \<and> (13 \<notin> set t \<longrightarrow> system p = strip (unicode E) t)"
  using assms strip_ends [of "unicode E" "universal_newlines t"]
    strip_middle [of "universal_newlines t" "unicode E"]
  by (simp add: build_prompt_def load_system_prompt_def universal_newlines_id)

theorem system_is_stripped_witness:
  "system_prompt_file env3 = Contents (py ''  You are a mentor.\<newline>'')
   \<and> 13 \<notin> set (py ''  You are a mentor.\<newline>'')
   \<and> build_prompt env3 (py '' hi '') =
       ([Check_exists, Read_text, Strip_user_message],
        Inr \<lparr>system = py ''You are a mentor.'', user = py ''hi''\<rparr>)
   \<and> strip (unicode env3) (py ''  You are a mentor.\<newline>'') = py ''You are a mentor.''"
  using system_is_stripped [of env3 "py ''  You are a mentor.\<newline>''" "py '' hi ''"]
  by (simp add: eval_simps build_prompt_def load_system_prompt_def)

text \<open>
  The system field is not always the stripped resource text: of the resource that
  stores \<^verbatim>\<open>a\<close>, CR, LF, \<^verbatim>\<open>b\<close> the field is \<^verbatim>\<open>a\<close>, LF, \<^verbatim>\<open>b\<close>, while stripping the
  stored text leaves all four characters.
\<close>

theorem system_is_stripped_counterexample:
  "system_prompt_file env7 = Contents [97, 13, 10, 98]
   \<and> build_prompt env7 (py ''hi'') =
       ([Check_exists, Read_text, Strip_user_message],
        Inr \<lparr>system = [97, 10, 98], user = py ''hi''\<rparr>)
   \<and> strip (unicode env7) [97, 13, 10, 98] = [97, 13, 10, 98]
   \<and> [97, 10, 98] \<noteq> [97, 13, 10, (98::nat)]"
  by (simp add: eval_simps build_prompt_def load_system_prompt_def)

end
